theory Spec2Isabelle
  imports Main "HOL-Library.Word"
begin

section \<open>Shared kernel: errors, time, identifiers\<close>

text \<open>
  Go's \<open>error\<close> values. The package-level sentinels (\<open>errors.New\<close> at package level)
  are constructors of their own; an error built inline by \<open>errors.New("...")\<close> is
  \<open>ErrNew\<close> with its message; \<open>ErrWrap\<close> is an error wrapping another one (what
  \<open>fmt.Errorf("...%w", err)\<close> builds), which is what \<open>errors.Is\<close> looks through.
  \<open>Panic\<close> is not a returned error: it marks a run-time panic of the Go code (a nil
  pointer dereference, an assignment into a nil map), so that a panic is a branch of the
  model as well.
\<close>

datatype error =
    ErrDuplicate
  | ErrNotFound
  | ErrConflict
  | ErrInvalidState
  | ErrEmailRequired
  | ErrAccountSuspended
  | ErrDeviceInvalid
  | ErrTournamentNotFound
  | ErrTournamentAlreadyExists
  | ErrTournamentAlreadyEnded
  | ErrParticipantNotFound
  | ErrParticipantAlreadyJoined
  | ErrTournamentFull
  | ErrInvalidAttemptCount
  | ErrSessionNotFound
  | ErrSessionAlreadyEnded
  | ErrInvalidEvent
  | ErrDispatchFailed
  | ErrPlayerAlreadyJoined
  | ErrPlayerNotFound
  | ErrNameRequired
  | ErrMemberNotFound
  | ErrNew string
  | ErrWrap string error
  | Panic string

text \<open>\<open>errors.Is(err, target)\<close>: \<open>err\<close> or an error in its chain equals \<open>target\<close>.\<close>

fun errors_Is :: "error \<Rightarrow> error \<Rightarrow> bool" where
  "errors_Is (ErrWrap m e) target = (ErrWrap m e = target \<or> errors_Is e target)"
| "errors_Is e target = (e = target)"

text \<open>
  \<open>time.Time\<close> is an instant: the number of nanoseconds since Go's zero time
  (January 1, year 1, 00:00:00 UTC). The location (\<open>.UTC()\<close>) does not change the
  instant and is left out. \<open>time.Duration\<close> and Go's \<open>int\<close> (on a 64-bit
  platform) are 64-bit two's complement integers.
\<close>

type_synonym time = int
type_synonym go_int = "64 word"
type_synonym duration = "64 word"

definition IsZero :: "time \<Rightarrow> bool" where
  "IsZero t = (t = 0)"

definition Before :: "time \<Rightarrow> time \<Rightarrow> bool" where
  "Before t u = (t < u)"

text \<open>
  \<open>strings.TrimSpace(s) == ""\<close>: the string consists of white space only. A Go string
  is a byte sequence read as UTF-8; the white space of \<open>unicode.IsSpace\<close> is U+0009 to
  U+000D, U+0020, U+0085, U+00A0, U+1680, U+2000 to U+200A, U+2028, U+2029, U+202F,
  U+205F and U+3000. Any other byte sequence (also an invalid encoding) is not white
  space.
\<close>

definition ascii_space :: "nat \<Rightarrow> bool" where
  "ascii_space b = (b = 9 \<or> b = 10 \<or> b = 11 \<or> b = 12 \<or> b = 13 \<or> b = 32)"

definition space2 :: "nat \<Rightarrow> nat \<Rightarrow> bool" where
  "space2 b0 b1 = (b0 = 194 \<and> (b1 = 133 \<or> b1 = 160))"

definition space3 :: "nat \<Rightarrow> nat \<Rightarrow> nat \<Rightarrow> bool" where
  "space3 b0 b1 b2 =
     ((b0 = 225 \<and> b1 = 154 \<and> b2 = 128) \<or>
      (b0 = 226 \<and> b1 = 128 \<and> (128 \<le> b2 \<and> b2 \<le> 138 \<or> b2 = 168 \<or> b2 = 169 \<or> b2 = 175)) \<or>
      (b0 = 226 \<and> b1 = 129 \<and> b2 = 159) \<or>
      (b0 = 227 \<and> b1 = 128 \<and> b2 = 128))"

fun all_space :: "nat list \<Rightarrow> bool" where
  "all_space [] = True"
| "all_space [b0] = ascii_space b0"
| "all_space [b0, b1] = (if ascii_space b0 then ascii_space b1 else space2 b0 b1)"
| "all_space (b0 # b1 # b2 # bs) =
     (if ascii_space b0 then all_space (b1 # b2 # bs)
      else if space2 b0 b1 then all_space (b2 # bs)
      else if space3 b0 b1 b2 then all_space bs
      else False)"

definition blank :: "string \<Rightarrow> bool" where
  "blank s = all_space (map of_char s)"

text \<open>The identifier types of \<open>domain/shared/types.go\<close> are strings at run time.\<close>

type_synonym PlayerID = string
type_synonym GroupID = string
type_synonym BattleID = string
type_synonym SeasonID = string
type_synonym BotCommandID = string
type_synonym IdempotencyKey = string

definition PlayerID_Validate :: "PlayerID \<Rightarrow> error option" where
  "PlayerID_Validate v = (if blank v then Some (ErrNew ''player id is required'') else None)"

definition GroupID_Validate :: "GroupID \<Rightarrow> error option" where
  "GroupID_Validate v = (if blank v then Some (ErrNew ''group id is required'') else None)"

definition BattleID_Validate :: "BattleID \<Rightarrow> error option" where
  "BattleID_Validate v = (if blank v then Some (ErrNew ''battle id is required'') else None)"

definition BotCommandID_Validate :: "BotCommandID \<Rightarrow> error option" where
  "BotCommandID_Validate v =
     (if blank v then Some (ErrNew ''bot command id is required'') else None)"

definition IdempotencyKey_Validate :: "IdempotencyKey \<Rightarrow> error option" where
  "IdempotencyKey_Validate key =
     (if blank key then Some (ErrNew ''idempotency key is required'') else None)"

type_synonym TournamentID = string

text \<open>
  Modelled from the spec: the type \<open>shared.TournamentID\<close> and its \<open>Validate\<close> are used
  by the tournament package but are not declared in \<open>domain/shared/types.go\<close>. The spec
  gives every identifier type the same \<open>Validate\<close>, which fails when the trimmed value
  is blank.
\<close>

definition TournamentID_Validate :: "TournamentID \<Rightarrow> error option" where
  "TournamentID_Validate v =
     (if blank v then Some (ErrNew ''tournament id is required'') else None)"

section \<open>The wall clock\<close>

text \<open>
  \<open>time.Now()\<close> is within reach of every Go function, and some mutators of the domain
  packages call it. The wall clock is the sequence of readings that the calls of
  \<open>time.Now()\<close> made by one mutator call return: \<open>clk 0\<close> is the first reading,
  \<open>clk 1\<close> the second. The mutators of the aggregates (\<open>End\<close> of a tournament and of
  a session, \<open>Reset\<close>, \<open>AddAttempts\<close>, \<open>AddPlayer\<close>, \<open>MarkReady\<close>, \<open>RegisterDevice\<close>,
  \<open>RecordSession\<close>, \<open>Suspend\<close>, \<open>Reinstate\<close>, \<open>AssignRole\<close>, \<open>UpdateSnapshot\<close>) are
  modelled under the wall clock: each takes the clock as its first argument, and its
  body uses a reading exactly where the source calls \<open>time.Now()\<close>. Whether a mutator
  reads the clock is then a property of its body.
\<close>

type_synonym wallclock = "nat \<Rightarrow> time"

section \<open>Tournament and Participant aggregates\<close>

text \<open>
  \<open>SortOrder\<close>, \<open>Operator\<close> and \<open>TournamentState\<close> are string types in the source;
  their constants are the strings below. \<open>EndTime *time.Time\<close> is an optional time.
\<close>

type_synonym TournamentState = string

abbreviation StateActive :: TournamentState where "StateActive \<equiv> ''active''"
abbreviation StateEnded :: TournamentState where "StateEnded \<equiv> ''ended''"

record Tournament =
  Tournament_ID :: TournamentID
  Tournament_Title :: string
  Tournament_Description :: string
  Tournament_Category :: go_int
  Tournament_SortOrder :: string
  Tournament_Operator :: string
  Tournament_ResetSchedule :: string
  Tournament_Authoritative :: bool
  Tournament_JoinRequired :: bool
  Tournament_MaxSize :: go_int
  Tournament_MaxNumScore :: go_int
  Tournament_StartTime :: time
  Tournament_EndTime :: "time option"
  Tournament_Duration :: duration
  Tournament_State :: TournamentState
  Tournament_CreatedAt :: time
  Tournament_UpdatedAt :: time

text \<open>\<open>NewTournament\<close>: the checks in the order of the source; \<open>Inl\<close> is the error.\<close>

definition NewTournament ::
  "TournamentID \<Rightarrow> string \<Rightarrow> string \<Rightarrow> go_int \<Rightarrow> string \<Rightarrow> string \<Rightarrow> string \<Rightarrow> bool \<Rightarrow> bool
     \<Rightarrow> go_int \<Rightarrow> go_int \<Rightarrow> time \<Rightarrow> duration \<Rightarrow> time \<Rightarrow> error + Tournament" where
  "NewTournament tid title description category sortOrder operator resetSchedule
       authoritative joinRequired maxSize maxNumScore startTime dur now =
     (case TournamentID_Validate tid of
        Some err \<Rightarrow> Inl err
      | None \<Rightarrow>
          if title = [] then Inl (ErrNew ''title is required'')
          else if sint category < 0 then Inl (ErrNew ''category must be non-negative'')
          else if sint maxSize < 0 then Inl (ErrNew ''max size must be non-negative'')
          else if sint maxNumScore < 0 then Inl (ErrNew ''max num score must be non-negative'')
          else if IsZero startTime then Inl (ErrNew ''start time is required'')
          else if sint dur < 0 then Inl (ErrNew ''duration must be non-negative'')
          else Inr \<lparr> Tournament_ID = tid,
                     Tournament_Title = title,
                     Tournament_Description = description,
                     Tournament_Category = category,
                     Tournament_SortOrder = sortOrder,
                     Tournament_Operator = operator,
                     Tournament_ResetSchedule = resetSchedule,
                     Tournament_Authoritative = authoritative,
                     Tournament_JoinRequired = joinRequired,
                     Tournament_MaxSize = maxSize,
                     Tournament_MaxNumScore = maxNumScore,
                     Tournament_StartTime = startTime,
                     Tournament_EndTime = None,
                     Tournament_Duration = dur,
                     Tournament_State = StateActive,
                     Tournament_CreatedAt = now,
                     Tournament_UpdatedAt = now \<rparr>)"

text \<open>
  A mutator with a pointer receiver returns the error together with the receiver as the
  call leaves it: \<open>(None, t')\<close> is a \<open>nil\<close> return with the mutated receiver.
\<close>

definition Tournament_End ::
  "wallclock \<Rightarrow> time \<Rightarrow> Tournament \<Rightarrow> error option \<times> Tournament" where
  "Tournament_End clk endTime t =
     (if Tournament_State t = StateEnded then (Some ErrTournamentAlreadyEnded, t)
      else if Before endTime (Tournament_StartTime t)
        then (Some (ErrNew ''end time cannot be before start time''), t)
      else (None, t\<lparr> Tournament_State := StateEnded,
                      Tournament_EndTime := Some endTime,
                      Tournament_UpdatedAt := endTime \<rparr>))"


definition Tournament_IsActive :: "Tournament \<Rightarrow> bool" where
  "Tournament_IsActive t = (Tournament_State t = StateActive)"

record Participant =
  Participant_TournamentID :: TournamentID
  Participant_PlayerID :: PlayerID
  Participant_Attempts :: go_int
  Participant_JoinedAt :: time
  Participant_UpdatedAt :: time

definition NewParticipant :: "TournamentID \<Rightarrow> PlayerID \<Rightarrow> time \<Rightarrow> error + Participant" where
  "NewParticipant tournamentID playerID joinedAt =
     (case TournamentID_Validate tournamentID of
        Some err \<Rightarrow> Inl err
      | None \<Rightarrow>
          (case PlayerID_Validate playerID of
             Some err \<Rightarrow> Inl err
           | None \<Rightarrow>
               if IsZero joinedAt then Inl (ErrNew ''joined time is required'')
               else Inr \<lparr> Participant_TournamentID = tournamentID,
                          Participant_PlayerID = playerID,
                          Participant_Attempts = 0,
                          Participant_JoinedAt = joinedAt,
                          Participant_UpdatedAt = joinedAt \<rparr>))"

text \<open>\<open>p.Attempts += count\<close> is an addition of Go \<open>int\<close>s: it wraps around.\<close>

definition Participant_AddAttempts ::
  "wallclock \<Rightarrow> go_int \<Rightarrow> time \<Rightarrow> Participant \<Rightarrow> error option \<times> Participant" where
  "Participant_AddAttempts clk count now p =
     (if sint count \<le> 0 then (Some (ErrNew ''attempt count must be positive''), p)
      else (None, p\<lparr> Participant_Attempts := Participant_Attempts p + count,
                      Participant_UpdatedAt := now \<rparr>))"

definition Participant_ResetAttempts :: "time \<Rightarrow> Participant \<Rightarrow> Participant" where
  "Participant_ResetAttempts now p =
     p\<lparr> Participant_Attempts := 0, Participant_UpdatedAt := now \<rparr>"

section \<open>PlayerAccount aggregate\<close>

record DeviceFingerprint =
  Device_ID :: string
  Device_Platform :: string
  Device_LastSeen :: time

record SessionMetadata =
  Meta_SessionID :: string
  Meta_IpAddress :: string
  Meta_UserAgent :: string
  Meta_IssuedAt :: time

text \<open>
  \<open>Devices\<close> is a Go map, which may be \<open>nil\<close> (\<open>None\<close>): reading a nil map finds
  nothing, assigning into it panics. \<open>Sessions\<close> is a slice; the nil slice is \<open>[]\<close>.
\<close>

record PlayerAccount =
  Player_ID :: PlayerID
  Player_Email :: string
  Player_DisplayName :: string
  Player_Devices :: "(string \<rightharpoonup> DeviceFingerprint) option"
  Player_Sessions :: "SessionMetadata list"
  Player_CreatedAt :: time
  Player_UpdatedAt :: time
  Player_Suspended :: bool
  Player_SuspensionMsg :: string

definition NewPlayerAccount ::
  "PlayerID \<Rightarrow> string \<Rightarrow> string \<Rightarrow> time \<Rightarrow> error + PlayerAccount" where
  "NewPlayerAccount pid email displayName now =
     (case PlayerID_Validate pid of
        Some err \<Rightarrow> Inl err
      | None \<Rightarrow>
          if email = [] then Inl ErrEmailRequired
          else Inr \<lparr> Player_ID = pid,
                     Player_Email = email,
                     Player_DisplayName = displayName,
                     Player_Devices = Some Map.empty,
                     Player_Sessions = [],
                     Player_CreatedAt = now,
                     Player_UpdatedAt = now,
                     Player_Suspended = False,
                     Player_SuspensionMsg = [] \<rparr>)"

definition RegisterDevice ::
  "wallclock \<Rightarrow> DeviceFingerprint \<Rightarrow> PlayerAccount \<Rightarrow> error option \<times> PlayerAccount" where
  "RegisterDevice clk device p =
     (if Player_Suspended p then (Some ErrAccountSuspended, p)
      else if Device_ID device = [] then (Some ErrDeviceInvalid, p)
      else
        let stamped = IsZero (Device_LastSeen device);
            device' = (if stamped then device\<lparr> Device_LastSeen := clk 0 \<rparr> else device)
        in case Player_Devices p of
             None \<Rightarrow> (Some (Panic ''assignment to entry in nil map''), p)
           | Some devices \<Rightarrow>
               (None, p\<lparr> Player_Devices := Some (devices(Device_ID device \<mapsto> device')),
                          Player_UpdatedAt := clk (if stamped then 1 else 0) \<rparr>))"

definition RecordSession :: "wallclock \<Rightarrow> SessionMetadata \<Rightarrow> PlayerAccount \<Rightarrow> PlayerAccount" where
  "RecordSession clk session p =
     (if Meta_SessionID session = [] then p
      else
        let stamped = IsZero (Meta_IssuedAt session);
            session' = (if stamped then session\<lparr> Meta_IssuedAt := clk 0 \<rparr> else session)
        in p\<lparr> Player_Sessions := Player_Sessions p @ [session'],
               Player_UpdatedAt := clk (if stamped then 1 else 0) \<rparr>)"


definition Reinstate :: "wallclock \<Rightarrow> PlayerAccount \<Rightarrow> PlayerAccount" where
  "Reinstate clk p =
     p\<lparr> Player_Suspended := False, Player_SuspensionMsg := [], Player_UpdatedAt := clk 0 \<rparr>"

text \<open>\<open>CanStartBattle\<close> only reads the account: it returns the error.\<close>

definition CanStartBattle :: "IdempotencyKey \<Rightarrow> PlayerAccount \<Rightarrow> error option" where
  "CanStartBattle key p =
     (if Player_Suspended p then Some ErrAccountSuspended
      else case IdempotencyKey_Validate key of Some err \<Rightarrow> Some err | None \<Rightarrow> None)"

section \<open>Battle aggregate\<close>









section \<open>Group aggregate\<close>

record Membership =
  Member_PlayerID :: PlayerID
  Member_Role :: string
  Member_JoinedAt :: time

record Group =
  Group_ID :: GroupID
  Group_Name :: string
  Group_Description :: string
  Group_Members :: "PlayerID \<rightharpoonup> Membership"
  Group_CreatedAt :: time
  Group_UpdatedAt :: time


section \<open>Session aggregate (analytics)\<close>

type_synonym SessionState = string

abbreviation SessionStateActive :: SessionState where "SessionStateActive \<equiv> ''active''"
abbreviation SessionStateEnded :: SessionState where "SessionStateEnded \<equiv> ''ended''"

record Session =
  Session_UserID :: PlayerID
  Session_State :: SessionState
  Session_Version :: string
  Session_Variant :: string
  Session_StartedAt :: time
  Session_EndedAt :: "time option"

definition NewSession :: "PlayerID \<Rightarrow> string \<Rightarrow> string \<Rightarrow> time \<Rightarrow> error + Session" where
  "NewSession userID version variant startedAt =
     (case PlayerID_Validate userID of
        Some err \<Rightarrow> Inl err
      | None \<Rightarrow>
          if version = [] then Inl (ErrNew ''version is required'')
          else if IsZero startedAt then Inl (ErrNew ''start time is required'')
          else Inr \<lparr> Session_UserID = userID,
                     Session_State = SessionStateActive,
                     Session_Version = version,
                     Session_Variant = variant,
                     Session_StartedAt = startedAt,
                     Session_EndedAt = None \<rparr>)"

definition Session_End :: "wallclock \<Rightarrow> time \<Rightarrow> Session \<Rightarrow> error option \<times> Session" where
  "Session_End clk endedAt s =
     (if Session_State s = SessionStateEnded then (Some (ErrNew ''session already ended''), s)
      else if Before endedAt (Session_StartedAt s)
        then (Some (ErrNew ''end time cannot be before start time''), s)
      else (None, s\<lparr> Session_State := SessionStateEnded, Session_EndedAt := Some endedAt \<rparr>))"

section \<open>Bot command aggregate\<close>

type_synonym CommandState = string

abbreviation CommandStatePending :: CommandState where "CommandStatePending \<equiv> ''pending''"
abbreviation CommandStateCompleted :: CommandState where "CommandStateCompleted \<equiv> ''completed''"
abbreviation CommandStateFailed :: CommandState where "CommandStateFailed \<equiv> ''failed''"

record Command =
  Command_ID :: BotCommandID
  Command_Channel :: string
  Command_Payload :: "8 word list"
  Command_IdempotencyKey :: IdempotencyKey
  Command_State :: CommandState
  Command_AttemptedAt :: time
  Command_CompletedAt :: time
  Command_RetryCount :: go_int
  Command_LastError :: string
  Command_CreatedAt :: time

definition NewCommand ::
  "BotCommandID \<Rightarrow> string \<Rightarrow> 8 word list \<Rightarrow> IdempotencyKey \<Rightarrow> time \<Rightarrow> error + Command" where
  "NewCommand cid channel payload key now =
     (case BotCommandID_Validate cid of
        Some err \<Rightarrow> Inl err
      | None \<Rightarrow>
          (case IdempotencyKey_Validate key of
             Some err \<Rightarrow> Inl err
           | None \<Rightarrow>
               Inr \<lparr> Command_ID = cid,
                     Command_Channel = channel,
                     Command_Payload = payload,
                     Command_IdempotencyKey = key,
                     Command_State = CommandStatePending,
                     Command_AttemptedAt = 0,
                     Command_CompletedAt = 0,
                     Command_RetryCount = 0,
                     Command_LastError = [],
                     Command_CreatedAt = now \<rparr>))"

text \<open>\<open>err.Error()\<close>: the message of an error.\<close>

fun Error :: "error \<Rightarrow> string" where
  "Error ErrDuplicate = ''duplicate operation''"
| "Error ErrNotFound = ''entity not found''"
| "Error ErrConflict = ''entity conflict''"
| "Error ErrInvalidState = ''invalid state transition''"
| "Error ErrEmailRequired = ''player email is required''"
| "Error ErrAccountSuspended = ''player account suspended''"
| "Error ErrDeviceInvalid = ''device fingerprint invalid''"
| "Error ErrTournamentNotFound = ''tournament not found''"
| "Error ErrTournamentAlreadyExists = ''tournament already exists''"
| "Error ErrTournamentAlreadyEnded = ''tournament already ended''"
| "Error ErrParticipantNotFound = ''participant not found''"
| "Error ErrParticipantAlreadyJoined = ''participant already joined''"
| "Error ErrTournamentFull = ''tournament is full''"
| "Error ErrInvalidAttemptCount = ''invalid attempt count''"
| "Error ErrSessionNotFound = ''session not found''"
| "Error ErrSessionAlreadyEnded = ''session already ended''"
| "Error ErrInvalidEvent = ''invalid event''"
| "Error ErrDispatchFailed = ''failed to dispatch events''"
| "Error ErrPlayerAlreadyJoined = ''player already joined battle''"
| "Error ErrPlayerNotFound = ''player not in battle''"
| "Error ErrNameRequired = ''group name required''"
| "Error ErrMemberNotFound = ''group member not found''"
| "Error (ErrNew m) = m"
| "Error (ErrWrap m e) = m"
| "Error (Panic m) = m"

definition MarkAttempt :: "time \<Rightarrow> error option \<Rightarrow> Command \<Rightarrow> Command" where
  "MarkAttempt now err c =
     (case err of
        Some e \<Rightarrow> c\<lparr> Command_AttemptedAt := now,
                       Command_RetryCount := Command_RetryCount c + 1,
                       Command_State := CommandStateFailed,
                       Command_LastError := Error e \<rparr>
      | None \<Rightarrow> c\<lparr> Command_AttemptedAt := now,
                     Command_State := CommandStateCompleted,
                     Command_CompletedAt := now,
                     Command_LastError := [] \<rparr>)"

section \<open>Bot command service\<close>

text \<open>
  The collaborators of a service are Go interfaces, implemented outside the service. A
  collaborator method is a function on the state of the world \<open>'w\<close> (whatever the
  stores, the queue and the external systems hold): it returns its Go results and the
  new world. A nil-able collaborator (\<open>Producer\<close>, \<open>Notifier\<close>) is optional. A method
  that returns a pointer and an error returns an optional value and an optional error.

  A service operation returns its Go results, the world it leaves and the list of the
  collaborator calls it made, in the order it made them.
\<close>

datatype bot_call =
    Bot_Clock
  | Bot_ReserveCommand IdempotencyKey
  | Bot_Save Command
  | Bot_Enqueue Command
  | Bot_Notify PlayerID "(string \<times> string) list"

record 'w bot_Service =
  bot_ReserveCommand :: "IdempotencyKey \<Rightarrow> 'w \<Rightarrow> (Command option \<times> error option) \<times> 'w"
  bot_Save :: "Command \<Rightarrow> 'w \<Rightarrow> error option \<times> 'w"
  bot_Enqueue :: "(Command \<Rightarrow> 'w \<Rightarrow> error option \<times> 'w) option"
  bot_Notify :: "(PlayerID \<Rightarrow> (string \<times> string) list \<Rightarrow> 'w \<Rightarrow> error option \<times> 'w) option"
  bot_Clock :: "'w \<Rightarrow> time \<times> 'w"

record CommandInput =
  Input_CommandID :: BotCommandID
  Input_Channel :: string
  Input_PlayerID :: PlayerID
  Input_Payload :: "8 word list"
  Input_IdempotencyKey :: IdempotencyKey

record CommandResult =
  Accepted :: bool

type_synonym 'w handle_result = "(CommandResult \<times> error option) \<times> 'w \<times> bot_call list"

text \<open>The end of \<open>Handle\<close>: the best-effort acknowledgement, whose error is dropped.\<close>

definition Handle_notify ::
  "'w bot_Service \<Rightarrow> CommandInput \<Rightarrow> 'w \<Rightarrow> bot_call list \<Rightarrow> 'w handle_result" where
  "Handle_notify s input w tr =
     (case bot_Notify s of
        Some notify \<Rightarrow>
          if Input_PlayerID input \<noteq> [] then
            (let (_, w') = notify (Input_PlayerID input) [(''status'', ''accepted'')] w
             in ((\<lparr> Accepted = True \<rparr>, None), w',
                 tr @ [Bot_Notify (Input_PlayerID input) [(''status'', ''accepted'')]]))
          else ((\<lparr> Accepted = True \<rparr>, None), w, tr)
      | None \<Rightarrow> ((\<lparr> Accepted = True \<rparr>, None), w, tr))"

text \<open>
  The middle of \<open>Handle\<close>, after the pending command has been saved: enqueue it; when
  that fails, mark the attempt failed, save again (the error of this save is dropped)
  and return the enqueue error.
\<close>

definition Handle_enqueue ::
  "'w bot_Service \<Rightarrow> CommandInput \<Rightarrow> time \<Rightarrow> Command \<Rightarrow> 'w \<Rightarrow> bot_call list
     \<Rightarrow> 'w handle_result" where
  "Handle_enqueue s input now cmd w tr =
     (case bot_Enqueue s of
        Some enqueue \<Rightarrow>
          (case enqueue cmd w of
             (Some err, w1) \<Rightarrow>
               (let cmd' = MarkAttempt now (Some err) cmd;
                    (_, w2) = bot_Save s cmd' w1
                in ((\<lparr> Accepted = False \<rparr>, Some err), w2,
                    tr @ [Bot_Enqueue cmd, Bot_Save cmd']))
           | (None, w1) \<Rightarrow> Handle_notify s input w1 (tr @ [Bot_Enqueue cmd]))
      | None \<Rightarrow> Handle_notify s input w tr)"

definition Handle :: "'w bot_Service \<Rightarrow> CommandInput \<Rightarrow> 'w \<Rightarrow> 'w handle_result" where
  "Handle s input w =
     (let (now, w0) = bot_Clock s w;
          ((existing, err), w1) = bot_ReserveCommand s (Input_IdempotencyKey input) w0;
          tr = [Bot_Clock, Bot_ReserveCommand (Input_IdempotencyKey input)]
      in case err of
           None \<Rightarrow>
             (case existing of
                None \<Rightarrow> ((\<lparr> Accepted = False \<rparr>, Some (Panic ''nil pointer dereference'')), w1, tr)
              | Some c \<Rightarrow>
                  if Command_State c = CommandStateCompleted
                  then ((\<lparr> Accepted = True \<rparr>, None), w1, tr)
                  else ((\<lparr> Accepted = False \<rparr>, Some ErrDuplicate), w1, tr))
         | Some e \<Rightarrow>
             if \<not> errors_Is e ErrNotFound then ((\<lparr> Accepted = False \<rparr>, Some e), w1, tr)
             else
               (case NewCommand (Input_CommandID input) (Input_Channel input)
                       (Input_Payload input) (Input_IdempotencyKey input) now of
                  Inl e' \<Rightarrow> ((\<lparr> Accepted = False \<rparr>, Some e'), w1, tr)
                | Inr cmd \<Rightarrow>
                    (case bot_Save s cmd w1 of
                       (Some e', w2) \<Rightarrow>
                         ((\<lparr> Accepted = False \<rparr>, Some e'), w2, tr @ [Bot_Save cmd])
                     | (None, w2) \<Rightarrow>
                         Handle_enqueue s input now cmd w2 (tr @ [Bot_Save cmd]))))"

section \<open>Tournament service\<close>

record CreateTournamentParams =
  Params_ID :: string
  Params_Authoritative :: bool
  Params_SortOrder :: string
  Params_Operator :: string
  Params_ResetSchedule :: string
  Params_Title :: string
  Params_Description :: string
  Params_Category :: go_int
  Params_StartTime :: go_int
  Params_EndTime :: go_int
  Params_Duration :: go_int
  Params_MaxSize :: go_int
  Params_MaxNumScore :: go_int
  Params_JoinRequired :: bool

datatype tournament_call =
    Tour_Clock
  | Tour_Repo_Save Tournament
  | Tour_Repo_Delete TournamentID
  | Tour_Provider_CreateTournament CreateTournamentParams
  | Tour_Provider_DeleteTournament TournamentID

record 'w tournament_Service =
  tour_Repo_Save :: "Tournament \<Rightarrow> 'w \<Rightarrow> error option \<times> 'w"
  tour_Repo_Delete :: "TournamentID \<Rightarrow> 'w \<Rightarrow> error option \<times> 'w"
  tour_Provider_CreateTournament :: "CreateTournamentParams \<Rightarrow> 'w \<Rightarrow> error option \<times> 'w"
  tour_Provider_DeleteTournament :: "TournamentID \<Rightarrow> 'w \<Rightarrow> error option \<times> 'w"
  tour_Clock :: "'w \<Rightarrow> time \<times> 'w"

record CreateTournamentCommand =
  Create_ID :: TournamentID
  Create_Title :: string
  Create_Description :: string
  Create_Category :: go_int
  Create_SortOrder :: string
  Create_Operator :: string
  Create_ResetSchedule :: string
  Create_Authoritative :: bool
  Create_JoinRequired :: bool
  Create_MaxSize :: go_int
  Create_MaxNumScore :: go_int
  Create_StartTime :: time
  Create_EndTime :: "time option"
  Create_Duration :: duration

text \<open>
  \<open>int(t.Unix())\<close>: the seconds since January 1, 1970 UTC, which is 62135596800
  seconds after Go's zero time, as a Go \<open>int\<close>.
\<close>

definition Unix :: "time \<Rightarrow> go_int" where
  "Unix t = word_of_int (t div 1000000000 - 62135596800)"

text \<open>
  The parameters sent to the provider. \<open>int(cmd.Duration.Seconds())\<close> goes through
  \<open>float64\<close>; the conversion is the parameter \<open>seconds\<close>.
\<close>

definition provider_params ::
  "(duration \<Rightarrow> go_int) \<Rightarrow> CreateTournamentCommand \<Rightarrow> CreateTournamentParams" where
  "provider_params seconds cmd =
     \<lparr> Params_ID = Create_ID cmd,
       Params_Authoritative = Create_Authoritative cmd,
       Params_SortOrder = Create_SortOrder cmd,
       Params_Operator = Create_Operator cmd,
       Params_ResetSchedule = Create_ResetSchedule cmd,
       Params_Title = Create_Title cmd,
       Params_Description = Create_Description cmd,
       Params_Category = Create_Category cmd,
       Params_StartTime = Unix (Create_StartTime cmd),
       Params_EndTime = (case Create_EndTime cmd of Some e \<Rightarrow> Unix e | None \<Rightarrow> 0),
       Params_Duration = seconds (Create_Duration cmd),
       Params_MaxSize = Create_MaxSize cmd,
       Params_MaxNumScore = Create_MaxNumScore cmd,
       Params_JoinRequired = Create_JoinRequired cmd \<rparr>"

text \<open>The result is the created tournament's id (empty on an error) and the error.\<close>

definition CreateTournament ::
  "'w tournament_Service \<Rightarrow> (duration \<Rightarrow> go_int) \<Rightarrow> CreateTournamentCommand \<Rightarrow> 'w
     \<Rightarrow> (TournamentID \<times> error option) \<times> 'w \<times> tournament_call list" where
  "CreateTournament s seconds cmd w =
     (let (now, w0) = tour_Clock s w
      in case NewTournament (Create_ID cmd) (Create_Title cmd) (Create_Description cmd)
                (Create_Category cmd) (Create_SortOrder cmd) (Create_Operator cmd)
                (Create_ResetSchedule cmd) (Create_Authoritative cmd) (Create_JoinRequired cmd)
                (Create_MaxSize cmd) (Create_MaxNumScore cmd) (Create_StartTime cmd)
                (Create_Duration cmd) now of
           Inl err \<Rightarrow> (([], Some err), w0, [Tour_Clock])
         | Inr t \<Rightarrow>
             (case tour_Repo_Save s t w0 of
                (Some err, w1) \<Rightarrow> (([], Some err), w1, [Tour_Clock, Tour_Repo_Save t])
              | (None, w1) \<Rightarrow>
                  (let params = provider_params seconds cmd
                   in case tour_Provider_CreateTournament s params w1 of
                        (Some err, w2) \<Rightarrow>
                          (([], Some err), w2,
                           [Tour_Clock, Tour_Repo_Save t, Tour_Provider_CreateTournament params])
                      | (None, w2) \<Rightarrow>
                          ((Tournament_ID t, None), w2,
                           [Tour_Clock, Tour_Repo_Save t,
                            Tour_Provider_CreateTournament params]))))"

definition DeleteTournament ::
  "'w tournament_Service \<Rightarrow> TournamentID \<Rightarrow> 'w \<Rightarrow> error option \<times> 'w \<times> tournament_call list" where
  "DeleteTournament s tournamentID w =
     (case TournamentID_Validate tournamentID of
        Some err \<Rightarrow> (Some err, w, [])
      | None \<Rightarrow>
          (case tour_Provider_DeleteTournament s tournamentID w of
             (Some err, w1) \<Rightarrow> (Some err, w1, [Tour_Provider_DeleteTournament tournamentID])
           | (None, w1) \<Rightarrow>
               (case tour_Repo_Delete s tournamentID w1 of
                  (Some err, w2) \<Rightarrow>
                    (Some err, w2,
                     [Tour_Provider_DeleteTournament tournamentID, Tour_Repo_Delete tournamentID])
                | (None, w2) \<Rightarrow>
                    (None, w2,
                     [Tour_Provider_DeleteTournament tournamentID,
                      Tour_Repo_Delete tournamentID]))))"

text \<open>\<open>MemoryRepository\<close> of the tournament infrastructure: a map from id to tournament.\<close>

type_synonym tournament_memory = "TournamentID \<rightharpoonup> Tournament"

definition MemoryRepository_Save ::
  "Tournament \<Rightarrow> tournament_memory \<Rightarrow> error option \<times> tournament_memory" where
  "MemoryRepository_Save t r = (None, r(Tournament_ID t \<mapsto> t))"

definition MemoryRepository_Get ::
  "TournamentID \<Rightarrow> tournament_memory \<Rightarrow> Tournament option \<times> error option" where
  "MemoryRepository_Get tid r =
     (case r tid of None \<Rightarrow> (None, Some ErrTournamentNotFound) | Some t \<Rightarrow> (Some t, None))"

definition MemoryRepository_Delete ::
  "TournamentID \<Rightarrow> tournament_memory \<Rightarrow> error option \<times> tournament_memory" where
  "MemoryRepository_Delete tid r = (None, r(tid := None))"

section \<open>Analytics events and service\<close>

record LibraryInfo =
  Library_Name :: string
  Library_Version :: string

record Context =
  Context_Direct :: bool
  Context_Library :: LibraryInfo

record AppInfo =
  App_Name :: string
  App_Version :: string

record OSInfo =
  OS_Name :: string
  OS_Version :: string

abbreviation EventTypeIdentify :: string where "EventTypeIdentify \<equiv> ''identify''"
abbreviation EventTypeTrack :: string where "EventTypeTrack \<equiv> ''track''"
abbreviation EventNameStart :: string where "EventNameStart \<equiv> ''start''"
abbreviation EventNameEnd :: string where "EventNameEnd \<equiv> ''end''"

record Event =
  Event_Type :: string
  Event_UserID :: PlayerID
  Event_Name :: string
  Event_Context :: Context
  Event_App :: "AppInfo option"
  Event_OS :: "OSInfo option"
  Event_Timestamp :: time

definition NewTrackEvent :: "PlayerID \<Rightarrow> string \<Rightarrow> Context \<Rightarrow> time \<Rightarrow> error + Event" where
  "NewTrackEvent userID name ctx timestamp =
     (case PlayerID_Validate userID of
        Some err \<Rightarrow> Inl err
      | None \<Rightarrow>
          if name = [] then Inl (ErrNew ''event name cannot be empty'')
          else if IsZero timestamp then Inl (ErrNew ''timestamp cannot be zero'')
          else Inr \<lparr> Event_Type = EventTypeTrack,
                     Event_UserID = userID,
                     Event_Name = name,
                     Event_Context = ctx,
                     Event_App = None,
                     Event_OS = None,
                     Event_Timestamp = timestamp \<rparr>)"

datatype analytics_call =
    An_Sessions_Get PlayerID
  | An_Clock
  | An_Sessions_Save Session
  | An_ContextFactory
  | An_Dispatch "Event list"
  | An_Sessions_Delete PlayerID

record 'w analytics_Service =
  an_Dispatch :: "Event list \<Rightarrow> 'w \<Rightarrow> error option \<times> 'w"
  an_Sessions_Save :: "Session \<Rightarrow> 'w \<Rightarrow> error option \<times> 'w"
  an_Sessions_Get :: "PlayerID \<Rightarrow> 'w \<Rightarrow> (Session option \<times> error option) \<times> 'w"
  an_Sessions_Delete :: "PlayerID \<Rightarrow> 'w \<Rightarrow> error option \<times> 'w"
  an_Clock :: "'w \<Rightarrow> time \<times> 'w"
  an_ContextFactory :: "'w \<Rightarrow> Context \<times> 'w"

type_synonym 'w end_result = "error option \<times> 'w \<times> analytics_call list"

text \<open>
  The end of \<open>EndSession\<close>, after the ended session has been saved: build the end
  event, dispatch it, and clean the session up. The error of \<open>Delete\<close> is dropped.
\<close>

definition EndSession_dispatch ::
  "'w analytics_Service \<Rightarrow> PlayerID \<Rightarrow> time \<Rightarrow> 'w \<Rightarrow> analytics_call list \<Rightarrow> 'w end_result" where
  "EndSession_dispatch s userID now w tr =
     (let (ctx, w1) = an_ContextFactory s w
      in case NewTrackEvent userID EventNameEnd ctx now of
           Inl err \<Rightarrow> (Some err, w1, tr @ [An_ContextFactory])
         | Inr trackEvent \<Rightarrow>
             (case an_Dispatch s [trackEvent] w1 of
                (Some err, w2) \<Rightarrow>
                  (Some ErrDispatchFailed, w2, tr @ [An_ContextFactory, An_Dispatch [trackEvent]])
              | (None, w2) \<Rightarrow>
                  (let (_, w3) = an_Sessions_Delete s userID w2
                   in (None, w3,
                       tr @ [An_ContextFactory, An_Dispatch [trackEvent],
                             An_Sessions_Delete userID]))))"

text \<open>
  \<open>EndSession\<close> runs under the wall clock of the process, which it hands to the
  mutator it calls, \<open>session.End(now)\<close>; \<open>now\<close> is the reading of the service's own
  \<open>Clock\<close>.
\<close>

definition EndSession ::
  "'w analytics_Service \<Rightarrow> wallclock \<Rightarrow> PlayerID \<Rightarrow> 'w \<Rightarrow> 'w end_result" where
  "EndSession s clk userID w =
     (case PlayerID_Validate userID of
        Some err \<Rightarrow> (Some err, w, [])
      | None \<Rightarrow>
          (let ((session, err), w1) = an_Sessions_Get s userID w
           in case err of
                Some e \<Rightarrow> (Some e, w1, [An_Sessions_Get userID])
              | None \<Rightarrow>
                  (let (now, w2) = an_Clock s w1
                   in case session of
                        None \<Rightarrow>
                          (Some (Panic ''nil pointer dereference''), w2,
                           [An_Sessions_Get userID, An_Clock])
                      | Some sess \<Rightarrow>
                          (case Session_End clk now sess of
                             (Some e, _) \<Rightarrow> (Some e, w2, [An_Sessions_Get userID, An_Clock])
                           | (None, sess') \<Rightarrow>
                               (case an_Sessions_Save s sess' w2 of
                                  (Some e, w3) \<Rightarrow>
                                    (Some e, w3,
                                     [An_Sessions_Get userID, An_Clock, An_Sessions_Save sess'])
                                | (None, w3) \<Rightarrow>
                                    EndSession_dispatch s userID now w3
                                      [An_Sessions_Get userID, An_Clock,
                                       An_Sessions_Save sess'])))))"

text \<open>
  \<open>MemorySessionRepository\<close>: a map from user id to session, behind a lock. The map
  holds pointers in the source, so the session that \<open>Get\<close> returns is the stored one;
  \<open>EndSession\<close> saves the session right after it has mutated it, so that the map of
  values below holds the same sessions after every call of the service.
\<close>

type_synonym session_memory = "PlayerID \<rightharpoonup> Session"

definition MemorySessionRepository_Save ::
  "Session \<Rightarrow> session_memory \<Rightarrow> error option \<times> session_memory" where
  "MemorySessionRepository_Save session r = (None, r(Session_UserID session \<mapsto> session))"

definition MemorySessionRepository_Get ::
  "PlayerID \<Rightarrow> session_memory \<Rightarrow> (Session option \<times> error option) \<times> session_memory" where
  "MemorySessionRepository_Get userID r =
     (case r userID of
        None \<Rightarrow> ((None, Some ErrSessionNotFound), r)
      | Some session \<Rightarrow> ((Some session, None), r))"

definition MemorySessionRepository_Delete ::
  "PlayerID \<Rightarrow> session_memory \<Rightarrow> error option \<times> session_memory" where
  "MemorySessionRepository_Delete userID r = (None, r(userID := None))"

text \<open>
  The service as the tracker adapter and the tests build it: the memory repository, a
  clock that reads \<open>now\<close>, the default context factory (with the version string of the
  Go runtime), and a dispatcher in the manner of \<open>mockDispatcher\<close>, which returns the
  error it was set up with.
\<close>

definition defaultContextFactory :: "string \<Rightarrow> Context" where
  "defaultContextFactory runtimeVersion =
     \<lparr> Context_Direct = True,
       Context_Library = \<lparr> Library_Name = ''go'', Library_Version = runtimeVersion \<rparr> \<rparr>"

definition memory_analytics :: "time \<Rightarrow> error option \<Rightarrow> session_memory analytics_Service" where
  "memory_analytics now dispatchErr =
     \<lparr> an_Dispatch = (\<lambda>events r. (dispatchErr, r)),
       an_Sessions_Save = MemorySessionRepository_Save,
       an_Sessions_Get = MemorySessionRepository_Get,
       an_Sessions_Delete = MemorySessionRepository_Delete,
       an_Clock = (\<lambda>r. (now, r)),
       an_ContextFactory = (\<lambda>r. (defaultContextFactory ''go1.21'', r)) \<rparr>"

section \<open>Mutator calls\<close>





section \<open>Order of calls\<close>

text \<open>
  \<open>preceded p q calls\<close>: no call that satisfies \<open>q\<close> is made unless a call that
  satisfies \<open>p\<close> has been made before it.
\<close>

fun preceded :: "('a \<Rightarrow> bool) \<Rightarrow> ('a \<Rightarrow> bool) \<Rightarrow> 'a list \<Rightarrow> bool" where
  "preceded p q [] = True"
| "preceded p q (x # xs) = (if p x then True else \<not> q x \<and> preceded p q xs)"

fun is_Repo_Save :: "tournament_call \<Rightarrow> bool" where
  "is_Repo_Save (Tour_Repo_Save t) = True"
| "is_Repo_Save c = False"

fun is_Repo_Delete :: "tournament_call \<Rightarrow> bool" where
  "is_Repo_Delete (Tour_Repo_Delete t) = True"
| "is_Repo_Delete c = False"

fun is_Provider_CreateTournament :: "tournament_call \<Rightarrow> bool" where
  "is_Provider_CreateTournament (Tour_Provider_CreateTournament p) = True"
| "is_Provider_CreateTournament c = False"

fun is_Provider_DeleteTournament :: "tournament_call \<Rightarrow> bool" where
  "is_Provider_DeleteTournament (Tour_Provider_DeleteTournament t) = True"
| "is_Provider_DeleteTournament c = False"

section \<open>Test doubles and example values\<close>

text \<open>
  The tournament service over the memory repository, in the manner of the mocks of
  \<open>service_test.go\<close>: \<open>Save\<close> and the provider calls return the error they were set up
  with (\<open>Save\<close> stores when it was set up with none), the clock reads \<open>now\<close>.
\<close>

definition memory_tournaments ::
  "time \<Rightarrow> error option \<Rightarrow> error option \<Rightarrow> tournament_memory tournament_Service" where
  "memory_tournaments now saveErr providerErr =
     \<lparr> tour_Repo_Save =
         (\<lambda>t r. case saveErr of Some e \<Rightarrow> (Some e, r) | None \<Rightarrow> MemoryRepository_Save t r),
       tour_Repo_Delete = MemoryRepository_Delete,
       tour_Provider_CreateTournament = (\<lambda>params r. (providerErr, r)),
       tour_Provider_DeleteTournament = (\<lambda>tid r. (providerErr, r)),
       tour_Clock = (\<lambda>r. (now, r)) \<rparr>"

text \<open>
  A bot command service over mocks: \<open>ReserveCommand\<close> returns what it was set up with,
  \<open>Save\<close> records the commands it is given, \<open>Enqueue\<close> returns the error it was set up
  with; there is no notifier.
\<close>

definition mock_bot ::
  "time \<Rightarrow> Command option \<times> error option \<Rightarrow> error option \<Rightarrow> Command list bot_Service" where
  "mock_bot now reserved enqueueErr =
     \<lparr> bot_ReserveCommand = (\<lambda>key saved. (reserved, saved)),
       bot_Save = (\<lambda>c saved. (None, saved @ [c])),
       bot_Enqueue = Some (\<lambda>c saved. (enqueueErr, saved)),
       bot_Notify = None,
       bot_Clock = (\<lambda>saved. (now, saved)) \<rparr>"

definition cup :: Tournament where
  "cup = \<lparr> Tournament_ID = ''t1'', Tournament_Title = ''Cup'', Tournament_Description = [],
           Tournament_Category = 0, Tournament_SortOrder = ''desc'', Tournament_Operator = ''best'',
           Tournament_ResetSchedule = [], Tournament_Authoritative = True,
           Tournament_JoinRequired = False, Tournament_MaxSize = 10, Tournament_MaxNumScore = 0,
           Tournament_StartTime = 3600, Tournament_EndTime = None, Tournament_Duration = 86400,
           Tournament_State = StateActive, Tournament_CreatedAt = 1, Tournament_UpdatedAt = 1 \<rparr>"

definition create_cup :: CreateTournamentCommand where
  "create_cup = \<lparr> Create_ID = ''t1'', Create_Title = ''Cup'', Create_Description = [],
           Create_Category = 0, Create_SortOrder = ''desc'', Create_Operator = ''best'',
           Create_ResetSchedule = [], Create_Authoritative = True,
           Create_JoinRequired = False, Create_MaxSize = 10, Create_MaxNumScore = 0,
           Create_StartTime = 3600, Create_EndTime = None, Create_Duration = 86400 \<rparr>"

definition participant_max :: Participant where
  "participant_max = \<lparr> Participant_TournamentID = ''t1'', Participant_PlayerID = ''p1'',
             Participant_Attempts = 9223372036854775807,
             Participant_JoinedAt = 1, Participant_UpdatedAt = 1 \<rparr>"

definition player_account :: PlayerAccount where
  "player_account = \<lparr> Player_ID = ''p1'', Player_Email = ''p1@example.org'',
             Player_DisplayName = ''Ann'', Player_Devices = Some Map.empty, Player_Sessions = [],
             Player_CreatedAt = 1, Player_UpdatedAt = 1, Player_Suspended = False,
             Player_SuspensionMsg = [] \<rparr>"

definition suspended_account :: PlayerAccount where
  "suspended_account =
     player_account\<lparr> Player_Suspended := True, Player_SuspensionMsg := ''abuse'' \<rparr>"

definition phone :: DeviceFingerprint where
  "phone = \<lparr> Device_ID = ''d1'', Device_Platform = ''ios'', Device_LastSeen = 7 \<rparr>"

definition web_session :: SessionMetadata where
  "web_session = \<lparr> Meta_SessionID = ''s1'', Meta_IpAddress = [], Meta_UserAgent = [],
                   Meta_IssuedAt = 7 \<rparr>"



definition active_session :: Session where
  "active_session = \<lparr> Session_UserID = ''player-123'', Session_State = SessionStateActive,
                      Session_Version = ''1.0.0'', Session_Variant = ''production'',
                      Session_StartedAt = 100, Session_EndedAt = None \<rparr>"

definition done_command :: Command where
  "done_command = \<lparr> Command_ID = ''c1'', Command_Channel = ''telegram'', Command_Payload = [],
                    Command_IdempotencyKey = ''k1'', Command_State = CommandStateCompleted,
                    Command_AttemptedAt = 5, Command_CompletedAt = 5, Command_RetryCount = 0,
                    Command_LastError = [], Command_CreatedAt = 4 \<rparr>"

definition attack_input :: CommandInput where
  "attack_input = \<lparr> Input_CommandID = ''c2'', Input_Channel = ''telegram'',
                    Input_PlayerID = ''p1'', Input_Payload = [], Input_IdempotencyKey = ''k1'' \<rparr>"

definition blank_id_input :: CommandInput where
  "blank_id_input = \<lparr> Input_CommandID = '' '', Input_Channel = ''telegram'',
                      Input_PlayerID = ''p1'', Input_Payload = [], Input_IdempotencyKey = ''k1'' \<rparr>"

definition ended_session :: Session where
  "ended_session = active_session\<lparr> Session_State := SessionStateEnded, Session_EndedAt := Some 200 \<rparr>"

definition end_event :: Event where
  "end_event = \<lparr> Event_Type = EventTypeTrack, Event_UserID = ''player-123'',
                 Event_Name = EventNameEnd, Event_Context = defaultContextFactory ''go1.21'',
                 Event_App = None, Event_OS = None, Event_Timestamp = 200 \<rparr>"

section \<open>Properties\<close>

lemma blank_examples:
  "blank []" "blank '' ''" "\<not> blank ''k1''" "\<not> blank ''t1''" "\<not> blank ''p1''"
  "\<not> blank ''player-123''" "\<not> blank ''c1''"
  by (simp_all add: blank_def ascii_space_def space2_def space3_def)

lemma sint_add_exact:
  fixes a n :: "64 word"
  assumes "0 < sint n" and "sint a + sint n \<le> 9223372036854775807"
  shows "sint (a + n) = sint a + sint n"
proof -
  have "- (2 ^ 63) \<le> sint a" using sint_ge [of a] by simp
  with assms have "- (2 ^ 63) \<le> sint a + sint n" "sint a + sint n < 2 ^ 63" by simp_all
  then show ?thesis
    by (simp add: sint_word_ariths signed_take_bit_int_eq_self)
qed

subsection \<open>Idempotent intake\<close>

text \<open>
  C1. When \<open>ReserveCommand\<close> returns an existing command for the idempotency key of the
  input, \<open>Handle\<close> returns \<open>Accepted = true\<close> and no error if that command is completed,
  and the \<open>Duplicate\<close> error if it is in any other state. In both cases the only
  collaborator calls are the clock and \<open>ReserveCommand\<close> (no \<open>Save\<close>, no \<open>Enqueue\<close>, no
  \<open>Notify\<close>), and the world is left as \<open>ReserveCommand\<close> returned it.
\<close>

theorem Handle_existing_command:
  assumes "bot_Clock s w = (now, w0)"
      and "bot_ReserveCommand s (Input_IdempotencyKey input) w0 = ((Some existing, None), w1)"
  shows "Handle s input w =
           (if Command_State existing = CommandStateCompleted
            then ((\<lparr> Accepted = True \<rparr>, None), w1,
                  [Bot_Clock, Bot_ReserveCommand (Input_IdempotencyKey input)])
            else ((\<lparr> Accepted = False \<rparr>, Some ErrDuplicate), w1,
                  [Bot_Clock, Bot_ReserveCommand (Input_IdempotencyKey input)]))"
  using assms by (simp add: Handle_def)

theorem Handle_existing_command_witness:
  "Handle (mock_bot 9 (Some done_command, None) None) attack_input [] =
     ((\<lparr> Accepted = True \<rparr>, None), [], [Bot_Clock, Bot_ReserveCommand ''k1'']) \<and>
   Handle (mock_bot 9 (Some (done_command\<lparr> Command_State := CommandStatePending \<rparr>), None) None)
       attack_input [] =
     ((\<lparr> Accepted = False \<rparr>, Some ErrDuplicate), [], [Bot_Clock, Bot_ReserveCommand ''k1''])"
proof -
  have c: "bot_Clock (mock_bot 9 r None) [] = (9, [])" for r
    by (simp add: mock_bot_def)
  have r: "bot_ReserveCommand (mock_bot 9 (Some x, None) None)
             (Input_IdempotencyKey attack_input) [] = ((Some x, None), [])" for x
    by (simp add: mock_bot_def)
  show ?thesis
    using Handle_existing_command [OF c r, of done_command]
          Handle_existing_command [OF c r, of "done_command\<lparr> Command_State := CommandStatePending \<rparr>"]
    by (simp add: done_command_def attack_input_def)
qed

text \<open>
  Against C3 as stated: \<open>Handle\<close> calls \<open>ReserveCommand\<close> before anything is
  validated. With a blank command id and a key that is not yet known, the call trace
  holds \<open>ReserveCommand\<close>; with a blank command id and a key whose command is completed,
  \<open>Handle\<close> returns \<open>Accepted = true\<close> and no validation error at all.
\<close>

theorem Handle_reserves_before_validation_counterexample:
  "blank (Input_CommandID blank_id_input) \<and>
   Handle (mock_bot 9 (None, Some ErrNotFound) None) blank_id_input [] =
     ((\<lparr> Accepted = False \<rparr>, Some (ErrNew ''bot command id is required'')), [],
      [Bot_Clock, Bot_ReserveCommand ''k1'']) \<and>
   Handle (mock_bot 9 (Some done_command, None) None) blank_id_input [] =
     ((\<lparr> Accepted = True \<rparr>, None), [], [Bot_Clock, Bot_ReserveCommand ''k1''])"
  by (simp add: Handle_def mock_bot_def blank_id_input_def done_command_def NewCommand_def
        BotCommandID_Validate_def blank_examples)

text \<open>
  C3, amended. \<open>Handle\<close> calls \<open>ReserveCommand\<close> with the input's idempotency key before
  any validation. For every call whose input is structurally invalid (blank command id
  or blank idempotency key), whatever \<open>ReserveCommand\<close> answers, the clock and
  \<open>ReserveCommand\<close> are the only collaborator calls (no \<open>Save\<close>, no \<open>Enqueue\<close>, no
  \<open>Notify\<close>) and the world is left as \<open>ReserveCommand\<close> returned it; and when
  \<open>ReserveCommand\<close> signals \<open>NotFound\<close> (a fresh reservation), the call returns the
  validation error of \<open>NewCommand\<close>.
\<close>

theorem Handle_invalid_input:
  assumes "bot_Clock s w = (now, w0)"
      and "bot_ReserveCommand s (Input_IdempotencyKey input) w0 = ((existing, err), w1)"
      and "blank (Input_CommandID input) \<or> blank (Input_IdempotencyKey input)"
  shows "snd (Handle s input w) =
           (w1, [Bot_Clock, Bot_ReserveCommand (Input_IdempotencyKey input)]) \<and>
         (err = Some e \<and> errors_Is e ErrNotFound \<longrightarrow>
            fst (Handle s input w) =
              (\<lparr> Accepted = False \<rparr>,
               Some (if blank (Input_CommandID input) then ErrNew ''bot command id is required''
                     else ErrNew ''idempotency key is required'')))"
proof -
  from assms(3)
  have n: "NewCommand (Input_CommandID input) (Input_Channel input) (Input_Payload input)
             (Input_IdempotencyKey input) now =
           Inl (if blank (Input_CommandID input) then ErrNew ''bot command id is required''
                else ErrNew ''idempotency key is required'')"
    by (auto simp: NewCommand_def BotCommandID_Validate_def IdempotencyKey_Validate_def)
  show ?thesis
  proof (cases err)
    case None
    with assms(1,2) show ?thesis
      by (cases existing) (simp_all add: Handle_def Let_def)
  next
    case (Some e')
    with assms(1,2) n show ?thesis
      by (simp add: Handle_def Let_def)
  qed
qed

theorem Handle_invalid_input_witness:
  "errors_Is ErrNotFound ErrNotFound \<and> blank (Input_CommandID blank_id_input) \<and>
   Handle (mock_bot 9 (None, Some ErrNotFound) None) blank_id_input [] =
     ((\<lparr> Accepted = False \<rparr>, Some (ErrNew ''bot command id is required'')), [],
      [Bot_Clock, Bot_ReserveCommand ''k1'']) \<and>
   snd (Handle (mock_bot 9 (Some done_command, None) None) blank_id_input []) =
     ([], [Bot_Clock, Bot_ReserveCommand ''k1''])"
proof -
  have c: "bot_Clock (mock_bot 9 r None) [] = (9, [])" for r
    by (simp add: mock_bot_def)
  have r: "bot_ReserveCommand (mock_bot 9 x None) (Input_IdempotencyKey blank_id_input) [] =
             (x, [])" for x
    by (simp add: mock_bot_def)
  have i: "errors_Is ErrNotFound ErrNotFound" by simp
  have b: "blank (Input_CommandID blank_id_input) \<or> blank (Input_IdempotencyKey blank_id_input)"
    by (simp add: blank_id_input_def blank_examples)
  from Handle_invalid_input [OF c r b, of None "Some ErrNotFound" ErrNotFound]
       Handle_invalid_input [OF c r b, of "Some done_command" None ErrNotFound] i
  show ?thesis
    by (simp add: blank_id_input_def blank_examples prod_eq_iff)
qed

subsection \<open>Analytics sessions\<close>

text \<open>
  Against C2 as stated: with the memory repository and a dispatcher that fails,
  \<open>EndSession\<close> on an active session saves the ended session, returns
  \<open>ErrDispatchFailed\<close> and makes no \<open>Delete\<close> call: the ended session is still in the
  repository.
\<close>

theorem EndSession_dispatch_failure_counterexample:
  "EndSession (memory_analytics 200 (Some (ErrNew ''dispatch failed''))) (\<lambda>n. 200)
       ''player-123'' [''player-123'' \<mapsto> active_session] =
     (Some ErrDispatchFailed, [''player-123'' \<mapsto> ended_session],
      [An_Sessions_Get ''player-123'', An_Clock, An_Sessions_Save ended_session,
       An_ContextFactory, An_Dispatch [end_event]])"
  by (simp add: EndSession_def EndSession_dispatch_def memory_analytics_def
        MemorySessionRepository_Get_def MemorySessionRepository_Save_def
        PlayerID_Validate_def blank_examples Session_End_def active_session_def
        ended_session_def end_event_def Before_def IsZero_def NewTrackEvent_def)

text \<open>
  C2, amended. For every \<open>EndSession\<close> call on an existing session that \<open>End(now)\<close>
  accepts, once the ended session is persisted and the end event is built, the event is
  dispatched. If the dispatch succeeds, the session record is deleted from the
  repository (the result of \<open>Delete\<close> is ignored) and the call returns \<open>nil\<close>. If the
  dispatch fails, the call returns \<open>ErrDispatchFailed\<close> and \<open>Delete\<close> is not called.
\<close>

theorem EndSession_cleanup_after_dispatch:
  assumes "PlayerID_Validate userID = None"
      and "an_Sessions_Get s userID w = ((Some sess, None), w1)"
      and "an_Clock s w1 = (now, w2)"
      and "Session_End clk now sess = (None, sess')"
      and "an_Sessions_Save s sess' w2 = (None, w3)"
      and "an_ContextFactory s w3 = (ctx, w4)"
      and "NewTrackEvent userID EventNameEnd ctx now = Inr ev"
      and "an_Dispatch s [ev] w4 = (dispatchErr, w5)"
      and "an_Sessions_Delete s userID w5 = (deleteErr, w6)"
  shows "EndSession s clk userID w =
           (if dispatchErr = None
            then (None, w6,
                  [An_Sessions_Get userID, An_Clock, An_Sessions_Save sess', An_ContextFactory,
                   An_Dispatch [ev], An_Sessions_Delete userID])
            else (Some ErrDispatchFailed, w5,
                  [An_Sessions_Get userID, An_Clock, An_Sessions_Save sess', An_ContextFactory,
                   An_Dispatch [ev]]))"
  using assms by (auto simp: EndSession_def EndSession_dispatch_def)

theorem EndSession_cleanup_after_dispatch_witness:
  "EndSession (memory_analytics 200 None) (\<lambda>n. 200) ''player-123''
       [''player-123'' \<mapsto> active_session] =
     (None, Map.empty,
      [An_Sessions_Get ''player-123'', An_Clock, An_Sessions_Save ended_session,
       An_ContextFactory, An_Dispatch [end_event], An_Sessions_Delete ''player-123'']) \<and>
   EndSession (memory_analytics 200 (Some (ErrNew ''dispatch failed''))) (\<lambda>n. 200)
       ''player-123'' [''player-123'' \<mapsto> active_session] =
     (Some ErrDispatchFailed, [''player-123'' \<mapsto> ended_session],
      [An_Sessions_Get ''player-123'', An_Clock, An_Sessions_Save ended_session,
       An_ContextFactory, An_Dispatch [end_event]])"
proof -
  let ?w = "[''player-123'' \<mapsto> active_session]"
  let ?w3 = "[''player-123'' \<mapsto> ended_session]"
  have v: "PlayerID_Validate ''player-123'' = None"
    by (simp add: PlayerID_Validate_def blank_examples)
  have g: "an_Sessions_Get (memory_analytics 200 d) ''player-123'' ?w =
             ((Some active_session, None), ?w)" for d
    by (simp add: memory_analytics_def MemorySessionRepository_Get_def)
  have c: "an_Clock (memory_analytics 200 d) ?w = (200, ?w)" for d
    by (simp add: memory_analytics_def)
  have e: "Session_End (\<lambda>n. 200) 200 active_session = (None, ended_session)"
    by (simp add: Session_End_def active_session_def ended_session_def Before_def)
  have s: "an_Sessions_Save (memory_analytics 200 d) ended_session ?w = (None, ?w3)" for d
    by (simp add: memory_analytics_def MemorySessionRepository_Save_def ended_session_def
          active_session_def)
  have f: "an_ContextFactory (memory_analytics 200 d) ?w3 =
             (defaultContextFactory ''go1.21'', ?w3)" for d
    by (simp add: memory_analytics_def)
  have t: "NewTrackEvent ''player-123'' EventNameEnd (defaultContextFactory ''go1.21'') 200 =
             Inr end_event"
    by (simp add: NewTrackEvent_def v end_event_def IsZero_def)
  have p: "an_Dispatch (memory_analytics 200 d) [end_event] ?w3 = (d, ?w3)" for d
    by (simp add: memory_analytics_def)
  have x: "an_Sessions_Delete (memory_analytics 200 d) ''player-123'' ?w3 = (None, Map.empty)" for d
    by (simp add: memory_analytics_def MemorySessionRepository_Delete_def)
  show ?thesis
    using EndSession_cleanup_after_dispatch [OF v g c e s f t p x, of None]
          EndSession_cleanup_after_dispatch [OF v g c e s f t p x, of "Some (ErrNew ''dispatch failed'')"]
    by simp
qed

subsection \<open>Persist, then synchronise\<close>

text \<open>
  C8. In every \<open>CreateTournament\<close> call no provider \<open>CreateTournament\<close> call is made
  unless the repository \<open>Save\<close> has been called before it. Once the aggregate is
  constructed, the tournament is saved first. If \<open>Save\<close> fails, the call returns that
  error and its only collaborator calls are the clock and \<open>Save\<close>: the provider is not
  contacted. If \<open>Save\<close> succeeds, the provider is called next, with the parameters of
  the command. If the provider then fails, the call returns the provider's error; the
  provider call is the last collaborator call, so nothing undoes the \<open>Save\<close>, and the
  world is left as the provider returned it. If the provider succeeds, the call returns
  the tournament's id. When the aggregate cannot be constructed, the call returns the
  construction error and calls neither the repository nor the provider.
\<close>

theorem CreateTournament_save_before_provider:
  "preceded is_Repo_Save is_Provider_CreateTournament
     (snd (snd (CreateTournament s seconds cmd w))) \<and>
   (tour_Clock s w = (now, w0) \<and>
    NewTournament (Create_ID cmd) (Create_Title cmd) (Create_Description cmd)
      (Create_Category cmd) (Create_SortOrder cmd) (Create_Operator cmd)
      (Create_ResetSchedule cmd) (Create_Authoritative cmd) (Create_JoinRequired cmd)
      (Create_MaxSize cmd) (Create_MaxNumScore cmd) (Create_StartTime cmd)
      (Create_Duration cmd) now = Inr t \<and>
    tour_Repo_Save s t w0 = (Some saveErr, w1) \<longrightarrow>
      CreateTournament s seconds cmd w =
        (([], Some saveErr), w1, [Tour_Clock, Tour_Repo_Save t])) \<and>
   (tour_Clock s w = (now, w0) \<and>
    NewTournament (Create_ID cmd) (Create_Title cmd) (Create_Description cmd)
      (Create_Category cmd) (Create_SortOrder cmd) (Create_Operator cmd)
      (Create_ResetSchedule cmd) (Create_Authoritative cmd) (Create_JoinRequired cmd)
      (Create_MaxSize cmd) (Create_MaxNumScore cmd) (Create_StartTime cmd)
      (Create_Duration cmd) now = Inr t \<and>
    tour_Repo_Save s t w0 = (None, w1') \<and>
    tour_Provider_CreateTournament s (provider_params seconds cmd) w1' = (Some providerErr, w2) \<longrightarrow>
      CreateTournament s seconds cmd w =
        (([], Some providerErr), w2,
         [Tour_Clock, Tour_Repo_Save t,
          Tour_Provider_CreateTournament (provider_params seconds cmd)])) \<and>
   (tour_Clock s w = (now, w0) \<and>
    NewTournament (Create_ID cmd) (Create_Title cmd) (Create_Description cmd)
      (Create_Category cmd) (Create_SortOrder cmd) (Create_Operator cmd)
      (Create_ResetSchedule cmd) (Create_Authoritative cmd) (Create_JoinRequired cmd)
      (Create_MaxSize cmd) (Create_MaxNumScore cmd) (Create_StartTime cmd)
      (Create_Duration cmd) now = Inr t \<and>
    tour_Repo_Save s t w0 = (None, w1') \<and>
    tour_Provider_CreateTournament s (provider_params seconds cmd) w1' = (None, w2') \<longrightarrow>
      CreateTournament s seconds cmd w =
        ((Tournament_ID t, None), w2',
         [Tour_Clock, Tour_Repo_Save t,
          Tour_Provider_CreateTournament (provider_params seconds cmd)])) \<and>
   (tour_Clock s w = (now, w0) \<and>
    NewTournament (Create_ID cmd) (Create_Title cmd) (Create_Description cmd)
      (Create_Category cmd) (Create_SortOrder cmd) (Create_Operator cmd)
      (Create_ResetSchedule cmd) (Create_Authoritative cmd) (Create_JoinRequired cmd)
      (Create_MaxSize cmd) (Create_MaxNumScore cmd) (Create_StartTime cmd)
      (Create_Duration cmd) now = Inl newErr \<longrightarrow>
      CreateTournament s seconds cmd w = (([], Some newErr), w0, [Tour_Clock]))"
proof (intro conjI impI)
  show "preceded is_Repo_Save is_Provider_CreateTournament
          (snd (snd (CreateTournament s seconds cmd w)))"
    by (simp add: CreateTournament_def Let_def split: prod.splits sum.splits option.splits)
qed (simp_all add: CreateTournament_def)

text \<open>
  With the memory repository: after a failing \<open>Save\<close> the provider is not called; after
  a failing provider the tournament is in the repository; when both succeed the
  tournament is in the repository and its id is returned; a command without a title
  reaches neither the repository nor the provider.
\<close>

theorem CreateTournament_save_before_provider_witness:
  "CreateTournament (memory_tournaments 1 (Some (ErrNew ''save failed'')) None)
       (\<lambda>d. d div 1000000000) create_cup Map.empty =
     (([], Some (ErrNew ''save failed'')), Map.empty, [Tour_Clock, Tour_Repo_Save cup]) \<and>
   CreateTournament (memory_tournaments 1 None (Some (ErrNew ''provider failed'')))
       (\<lambda>d. d div 1000000000) create_cup Map.empty =
     (([], Some (ErrNew ''provider failed'')), [''t1'' \<mapsto> cup],
      [Tour_Clock, Tour_Repo_Save cup,
       Tour_Provider_CreateTournament (provider_params (\<lambda>d. d div 1000000000) create_cup)]) \<and>
   CreateTournament (memory_tournaments 1 None None)
       (\<lambda>d. d div 1000000000) create_cup Map.empty =
     ((''t1'', None), [''t1'' \<mapsto> cup],
      [Tour_Clock, Tour_Repo_Save cup,
       Tour_Provider_CreateTournament (provider_params (\<lambda>d. d div 1000000000) create_cup)]) \<and>
   CreateTournament (memory_tournaments 1 None None)
       (\<lambda>d. d div 1000000000) (create_cup\<lparr> Create_Title := [] \<rparr>) Map.empty =
     (([], Some (ErrNew ''title is required'')), Map.empty, [Tour_Clock])"
proof -
  let ?new = "\<lambda>cmd. NewTournament (Create_ID cmd) (Create_Title cmd)
      (Create_Description cmd) (Create_Category cmd) (Create_SortOrder cmd)
      (Create_Operator cmd) (Create_ResetSchedule cmd)
      (Create_Authoritative cmd) (Create_JoinRequired cmd)
      (Create_MaxSize cmd) (Create_MaxNumScore cmd) (Create_StartTime cmd)
      (Create_Duration cmd) 1"
  have c: "tour_Clock (memory_tournaments 1 a b) Map.empty = (1, Map.empty)" for a b
    by (simp add: memory_tournaments_def)
  have n: "?new create_cup = Inr cup"
    by (simp add: NewTournament_def create_cup_def cup_def TournamentID_Validate_def
          blank_examples IsZero_def)
  have n': "?new (create_cup\<lparr> Create_Title := [] \<rparr>) = Inl (ErrNew ''title is required'')"
    by (simp add: NewTournament_def create_cup_def TournamentID_Validate_def blank_examples)
  have s1: "tour_Repo_Save (memory_tournaments 1 (Some (ErrNew ''save failed'')) None) cup Map.empty =
              (Some (ErrNew ''save failed''), Map.empty)"
    by (simp add: memory_tournaments_def)
  have s2: "tour_Repo_Save (memory_tournaments 1 None b) cup Map.empty = (None, [''t1'' \<mapsto> cup])" for b
    by (simp add: memory_tournaments_def MemoryRepository_Save_def cup_def)
  have p: "tour_Provider_CreateTournament (memory_tournaments 1 None b)
             (provider_params (\<lambda>d. d div 1000000000) create_cup) [''t1'' \<mapsto> cup] =
           (b, [''t1'' \<mapsto> cup])" for b
    by (simp add: memory_tournaments_def)
  have i: "Tournament_ID cup = ''t1''" by (simp add: cup_def)
  show ?thesis
    using CreateTournament_save_before_provider
            [where s = "memory_tournaments 1 (Some (ErrNew ''save failed'')) None"
               and seconds = "\<lambda>d. d div 1000000000" and cmd = create_cup and w = Map.empty
               and now = 1 and ?w0.0 = Map.empty and t = cup
               and saveErr = "ErrNew ''save failed''" and ?w1.0 = Map.empty]
          CreateTournament_save_before_provider
            [where s = "memory_tournaments 1 None (Some (ErrNew ''provider failed''))"
               and seconds = "\<lambda>d. d div 1000000000" and cmd = create_cup and w = Map.empty
               and now = 1 and ?w0.0 = Map.empty and t = cup
               and w1' = "[''t1'' \<mapsto> cup]" and providerErr = "ErrNew ''provider failed''"
               and ?w2.0 = "[''t1'' \<mapsto> cup]"]
          CreateTournament_save_before_provider
            [where s = "memory_tournaments 1 None None"
               and seconds = "\<lambda>d. d div 1000000000" and cmd = create_cup and w = Map.empty
               and now = 1 and ?w0.0 = Map.empty and t = cup
               and w1' = "[''t1'' \<mapsto> cup]" and w2' = "[''t1'' \<mapsto> cup]"]
          CreateTournament_save_before_provider
            [where s = "memory_tournaments 1 None None"
               and seconds = "\<lambda>d. d div 1000000000"
               and cmd = "create_cup\<lparr> Create_Title := [] \<rparr>" and w = Map.empty
               and now = 1 and ?w0.0 = Map.empty and newErr = "ErrNew ''title is required''"]
          c n n' s1 s2 p i
    by simp
qed

text \<open>
  C9. In every \<open>DeleteTournament\<close> call no repository \<open>Delete\<close> is made unless the
  provider \<open>DeleteTournament\<close> has been called before it. If the provider delete fails,
  the call returns that error and the provider call is its only collaborator call: the
  repository \<open>Delete\<close> never runs. If the provider delete succeeds, the repository
  \<open>Delete\<close> runs next and its result is returned.
\<close>

theorem DeleteTournament_provider_first:
  "preceded is_Provider_DeleteTournament is_Repo_Delete
     (snd (snd (DeleteTournament s tournamentID w))) \<and>
   (TournamentID_Validate tournamentID = None \<and>
    tour_Provider_DeleteTournament s tournamentID w = (Some providerErr, w1) \<longrightarrow>
      DeleteTournament s tournamentID w =
        (Some providerErr, w1, [Tour_Provider_DeleteTournament tournamentID])) \<and>
   (TournamentID_Validate tournamentID = None \<and>
    tour_Provider_DeleteTournament s tournamentID w = (None, w1') \<and>
    tour_Repo_Delete s tournamentID w1' = (deleteErr, w2) \<longrightarrow>
      DeleteTournament s tournamentID w =
        (deleteErr, w2,
         [Tour_Provider_DeleteTournament tournamentID, Tour_Repo_Delete tournamentID]))"
proof (intro conjI impI)
  show "preceded is_Provider_DeleteTournament is_Repo_Delete
          (snd (snd (DeleteTournament s tournamentID w)))"
    by (simp add: DeleteTournament_def split: prod.splits option.splits)
qed (auto simp: DeleteTournament_def split: option.splits)

theorem DeleteTournament_provider_first_witness:
  "DeleteTournament (memory_tournaments 1 None (Some (ErrNew ''provider failed''))) ''t1''
       [''t1'' \<mapsto> cup] =
     (Some (ErrNew ''provider failed''), [''t1'' \<mapsto> cup], [Tour_Provider_DeleteTournament ''t1'']) \<and>
   DeleteTournament (memory_tournaments 1 None None) ''t1'' [''t1'' \<mapsto> cup] =
     (None, Map.empty, [Tour_Provider_DeleteTournament ''t1'', Tour_Repo_Delete ''t1''])"
proof -
  have v: "TournamentID_Validate ''t1'' = None"
    by (simp add: TournamentID_Validate_def blank_examples)
  have p: "tour_Provider_DeleteTournament (memory_tournaments 1 None b) ''t1'' [''t1'' \<mapsto> cup] =
             (b, [''t1'' \<mapsto> cup])" for b
    by (simp add: memory_tournaments_def)
  have d: "tour_Repo_Delete (memory_tournaments 1 None b) ''t1'' [''t1'' \<mapsto> cup] =
             (None, Map.empty)" for b
    by (simp add: memory_tournaments_def MemoryRepository_Delete_def)
  show ?thesis
    using DeleteTournament_provider_first
            [where s = "memory_tournaments 1 None (Some (ErrNew ''provider failed''))"
               and tournamentID = "''t1''" and w = "[''t1'' \<mapsto> cup]"
               and providerErr = "ErrNew ''provider failed''" and ?w1.0 = "[''t1'' \<mapsto> cup]"]
          DeleteTournament_provider_first
            [where s = "memory_tournaments 1 None None"
               and tournamentID = "''t1''" and w = "[''t1'' \<mapsto> cup]"
               and w1' = "[''t1'' \<mapsto> cup]" and deleteErr = None and ?w2.0 = Map.empty]
          v p d
    by simp
qed

subsection \<open>Tournament and participant\<close>

text \<open>
  C6. After a successful \<open>End(t1)\<close>, a second \<open>End(t2)\<close>, for any \<open>t2\<close>, returns
  \<open>ErrTournamentAlreadyEnded\<close> and leaves the tournament as it was: its \<open>EndTime\<close> is
  still \<open>t1\<close> and its state is still \<open>ended\<close>.
\<close>

theorem Tournament_End_twice:
  assumes "Tournament_End clk1 t1 t = (None, t')"
  shows "Tournament_End clk2 t2 t' = (Some ErrTournamentAlreadyEnded, t') \<and>
         Tournament_EndTime (snd (Tournament_End clk2 t2 t')) = Some t1 \<and>
         Tournament_State (snd (Tournament_End clk2 t2 t')) = StateEnded"
proof -
  from assms have t': "t' = t\<lparr> Tournament_State := StateEnded, Tournament_EndTime := Some t1,
                              Tournament_UpdatedAt := t1 \<rparr>"
    by (simp add: Tournament_End_def split: if_splits)
  show ?thesis by (simp add: t' Tournament_End_def)
qed

theorem Tournament_End_twice_witness:
  "Tournament_End (\<lambda>n. 90000) 90000 cup =
     (None, cup\<lparr> Tournament_State := StateEnded, Tournament_EndTime := Some 90000,
                  Tournament_UpdatedAt := 90000 \<rparr>) \<and>
   Tournament_End (\<lambda>n. 93600) 93600
       (cup\<lparr> Tournament_State := StateEnded, Tournament_EndTime := Some 90000,
             Tournament_UpdatedAt := 90000 \<rparr>) =
     (Some ErrTournamentAlreadyEnded,
      cup\<lparr> Tournament_State := StateEnded, Tournament_EndTime := Some 90000,
           Tournament_UpdatedAt := 90000 \<rparr>)"
proof -
  have h: "Tournament_End (\<lambda>n. 90000) 90000 cup =
     (None, cup\<lparr> Tournament_State := StateEnded, Tournament_EndTime := Some 90000,
                  Tournament_UpdatedAt := 90000 \<rparr>)"
    by (simp add: Tournament_End_def cup_def Before_def)
  from Tournament_End_twice [OF h, of "\<lambda>n. 93600" 93600] h show ?thesis by simp
qed

text \<open>
  Against C7 as stated: \<open>Attempts\<close> is a Go \<open>int\<close>. With \<open>Attempts\<close> at the largest
  \<open>int\<close>, \<open>AddAttempts(1, now)\<close> returns \<open>nil\<close> and leaves \<open>Attempts\<close> at the smallest
  \<open>int\<close>: the counter has not increased by 1.
\<close>

theorem Participant_AddAttempts_overflow_counterexample:
  "fst (Participant_AddAttempts (\<lambda>n. 2) 1 2 participant_max) = None \<and>
   sint (Participant_Attempts participant_max) = 9223372036854775807 \<and>
   sint (Participant_Attempts (snd (Participant_AddAttempts (\<lambda>n. 2) 1 2 participant_max))) =
     - 9223372036854775808"
  by (simp add: Participant_AddAttempts_def participant_max_def)

text \<open>
  C7, amended. \<open>AddAttempts(n, now)\<close> with \<open>n \<le> 0\<close> returns an error and leaves the
  participant unchanged. With \<open>n > 0\<close> it returns \<open>nil\<close> and sets \<open>Attempts\<close> to
  \<open>Attempts + n\<close> in Go's wrap-around arithmetic; the counter increases by exactly \<open>n\<close>
  whenever \<open>Attempts + n\<close> does not exceed the largest \<open>int\<close>.
\<close>

theorem Participant_AddAttempts_counts:
  "(sint n \<le> 0 \<longrightarrow>
      Participant_AddAttempts clk n now p =
        (Some (ErrNew ''attempt count must be positive''), p)) \<and>
   (0 < sint n \<longrightarrow>
      Participant_AddAttempts clk n now p =
        (None, p\<lparr> Participant_Attempts := Participant_Attempts p + n,
                   Participant_UpdatedAt := now \<rparr>)) \<and>
   (0 < sint n \<and> sint (Participant_Attempts p) + sint n \<le> 9223372036854775807 \<longrightarrow>
      sint (Participant_Attempts (snd (Participant_AddAttempts clk n now p))) =
        sint (Participant_Attempts p) + sint n)"
  by (simp add: Participant_AddAttempts_def sint_add_exact)

theorem Participant_AddAttempts_counts_witness:
  "sint (- 1 :: go_int) \<le> 0 \<and>
   Participant_AddAttempts (\<lambda>n. 2) (- 1) 2 participant_max =
     (Some (ErrNew ''attempt count must be positive''), participant_max) \<and>
   0 < sint (5 :: go_int) \<and>
   sint (Participant_Attempts (participant_max\<lparr> Participant_Attempts := 5 \<rparr>)) + sint (5 :: go_int)
     \<le> 9223372036854775807 \<and>
   Participant_AddAttempts (\<lambda>n. 2) 5 2 (participant_max\<lparr> Participant_Attempts := 5 \<rparr>) =
     (None, participant_max\<lparr> Participant_Attempts := 10, Participant_UpdatedAt := 2 \<rparr>) \<and>
   sint (Participant_Attempts
          (snd (Participant_AddAttempts (\<lambda>n. 2) 5 2
                 (participant_max\<lparr> Participant_Attempts := 5 \<rparr>)))) = 10"
  using Participant_AddAttempts_counts [of "- 1" "\<lambda>n. 2" 2 participant_max]
        Participant_AddAttempts_counts
          [of 5 "\<lambda>n. 2" 2 "participant_max\<lparr> Participant_Attempts := 5 \<rparr>"]
  by (simp add: participant_max_def)

subsection \<open>Mutators and the wall clock\<close>















subsection \<open>Player accounts\<close>

text \<open>
  Against C5 as stated: \<open>RecordSession\<close> has no error result and does not look at
  \<open>Suspended\<close>. On a suspended account it appends the session and sets \<open>UpdatedAt\<close>.
\<close>

theorem RecordSession_suspended_counterexample:
  "Player_Suspended suspended_account \<and>
   RecordSession (\<lambda>n. 50) web_session suspended_account =
     suspended_account\<lparr> Player_Sessions := [web_session], Player_UpdatedAt := 50 \<rparr> \<and>
   RecordSession (\<lambda>n. 50) web_session suspended_account \<noteq> suspended_account"
  by (simp add: RecordSession_def suspended_account_def player_account_def web_session_def IsZero_def)

text \<open>
  C5, amended. For every suspended account, \<open>RegisterDevice\<close> fails with
  \<open>ErrAccountSuspended\<close> and leaves the account unchanged, and \<open>CanStartBattle\<close> (which
  only reads the account) fails with \<open>ErrAccountSuspended\<close>.
\<close>

theorem suspended_account_gate:
  assumes "Player_Suspended p"
  shows "RegisterDevice clk device p = (Some ErrAccountSuspended, p) \<and>
         CanStartBattle key p = Some ErrAccountSuspended"
  using assms by (simp add: RegisterDevice_def CanStartBattle_def)

theorem suspended_account_gate_witness:
  "Player_Suspended suspended_account \<and>
   RegisterDevice (\<lambda>n. 50) phone suspended_account = (Some ErrAccountSuspended, suspended_account) \<and>
   CanStartBattle ''k1'' suspended_account = Some ErrAccountSuspended"
proof -
  have s: "Player_Suspended suspended_account" by (simp add: suspended_account_def player_account_def)
  from suspended_account_gate [OF s, of "\<lambda>n. 50" phone "''k1''"] s show ?thesis by simp
qed

text \<open>
  Against C10 as stated: \<open>NewPlayerAccount\<close> validates the id before it looks at the
  email. With a blank id and an empty email the error is the id's, not
  \<open>ErrEmailRequired\<close>.
\<close>

theorem NewPlayerAccount_blank_id_counterexample:
  "NewPlayerAccount [] [] ''Ann'' 5 = Inl (ErrNew ''player id is required'') \<and>
   NewPlayerAccount [] [] ''Ann'' 5 \<noteq> Inl ErrEmailRequired"
  by (simp add: NewPlayerAccount_def PlayerID_Validate_def blank_examples)

text \<open>
  C10, amended. For every input whose player id is valid, \<open>NewPlayerAccount\<close> returns
  \<open>ErrEmailRequired\<close> when the email is the empty string. Whenever it succeeds, the
  account has an empty (non-nil) device map, no sessions and \<open>Suspended = false\<close>. With
  a valid id and a non-empty email it succeeds for every display name, also a blank one.
\<close>

theorem NewPlayerAccount_email_required:
  "(PlayerID_Validate pid = None \<and> email = [] \<longrightarrow>
      NewPlayerAccount pid email displayName now = Inl ErrEmailRequired) \<and>
   (NewPlayerAccount pid email displayName now = Inr acct \<longrightarrow>
      Player_Devices acct = Some Map.empty \<and> Player_Sessions acct = [] \<and>
      \<not> Player_Suspended acct) \<and>
   (PlayerID_Validate pid = None \<and> email \<noteq> [] \<longrightarrow>
      (\<exists>acct'. NewPlayerAccount pid email displayName now = Inr acct' \<and>
                Player_DisplayName acct' = displayName))"
  by (auto simp: NewPlayerAccount_def split: option.splits if_splits)

theorem NewPlayerAccount_email_required_witness:
  "PlayerID_Validate ''p1'' = None \<and>
   NewPlayerAccount ''p1'' [] ''Ann'' 5 = Inl ErrEmailRequired \<and>
   (\<exists>acct. NewPlayerAccount ''p1'' ''p1@example.org'' [] 5 = Inr acct \<and>
      Player_DisplayName acct = [] \<and> Player_Devices acct = Some Map.empty \<and>
      Player_Sessions acct = [] \<and> \<not> Player_Suspended acct)"
proof -
  have v: "PlayerID_Validate ''p1'' = None"
    by (simp add: PlayerID_Validate_def blank_examples)
  from NewPlayerAccount_email_required [of "''p1''" "''p1@example.org''" "[]" 5] v
  obtain acct where a: "NewPlayerAccount ''p1'' ''p1@example.org'' [] 5 = Inr acct"
      "Player_DisplayName acct = []"
    by auto
  from NewPlayerAccount_email_required [of "''p1''" "''p1@example.org''" "[]" 5 acct] a
  have "Player_Devices acct = Some Map.empty \<and> Player_Sessions acct = [] \<and>
        \<not> Player_Suspended acct"
    by blast
  with a v NewPlayerAccount_email_required [of "''p1''" "[]" "''Ann''" 5]
  show ?thesis by auto
qed

end
